theory Spec2Isabelle
  imports Main "HOL-Library.Word"
begin

section \<open>The command-execution tool of \<^verbatim>\<open>server.py\<close>\<close>

text \<open>
  The repository is one coroutine, \<^verbatim>\<open>run_command(command)\<close>. It spawns the shell on
  the command with both output streams piped, awaits \<^verbatim>\<open>communicate()\<close>, decodes the
  two captured byte strings where they are not empty, and returns a dictionary with the
  keys \<^verbatim>\<open>stdout\<close>, \<^verbatim>\<open>stderr\<close> and \<^verbatim>\<open>return_code\<close>. The whole body sits in a
  \<^verbatim>\<open>try\<close> whose only handler is \<^verbatim>\<open>except Exception as e\<close>.

  The operating system and the asyncio library are the environment of this function.
  They are a parameter of the model (the record \<open>runtime\<close>); the function itself, the
  exception handler and the decoding of the captured bytes are modelled in full.
\<close>

subsection \<open>Python values\<close>

text \<open>
  A Python \<^verbatim>\<open>str\<close> is a sequence of Unicode code points, a \<^verbatim>\<open>bytes\<close> object a
  sequence of octets. The integers of Python are unbounded.
\<close>

type_synonym pystr = "nat list"
type_synonym bytes = "8 word list"

text \<open>A literal of the source, written in ASCII, as a Python string.\<close>

definition py_str :: "string \<Rightarrow> pystr" where
  "py_str s = map of_char s"

text \<open>The values stored in the returned dictionary (\<^verbatim>\<open>Dict[str, Any]\<close>).\<close>

datatype pyvalue = PyStr pystr | PyInt int | PyNone

text \<open>
  A dictionary literal keeps its keys in the order written; the keys of this program are
  ASCII literals.
\<close>

type_synonym pydict = "(string \<times> pyvalue) list"

subsection \<open>Exceptions\<close>

text \<open>
  The classes of fault that can reach the handler. \<^verbatim>\<open>asyncio.CancelledError\<close>,
  \<^verbatim>\<open>KeyboardInterrupt\<close>, \<^verbatim>\<open>SystemExit\<close> and \<^verbatim>\<open>GeneratorExit\<close> derive from
  \<^verbatim>\<open>BaseException\<close> directly; every other class listed derives from
  \<^verbatim>\<open>Exception\<close>. The last two constructors stand for any further class, by its name:
  one that derives from \<^verbatim>\<open>Exception\<close>, and one that derives from \<^verbatim>\<open>BaseException\<close>
  only.
\<close>

datatype exc_class =
    OSError
  | FileNotFoundError
  | PermissionError
  | NotImplementedError
  | ValueError
  | RuntimeError
  | MemoryError
  | UnicodeDecodeError
  | CancelledError
  | KeyboardInterrupt
  | SystemExit
  | GeneratorExit
  | Other_Exception string
  | Other_BaseException string

text \<open>An exception object: its class and the text that \<^verbatim>\<open>str(e)\<close> gives.\<close>

datatype exception = Exc (exc_cls: exc_class) (description: pystr)

fun subclass_of_Exception :: "exc_class \<Rightarrow> bool" where
  "subclass_of_Exception CancelledError = False"
| "subclass_of_Exception KeyboardInterrupt = False"
| "subclass_of_Exception SystemExit = False"
| "subclass_of_Exception GeneratorExit = False"
| "subclass_of_Exception (Other_BaseException _) = False"
| "subclass_of_Exception _ = True"

text \<open>\<^verbatim>\<open>isinstance(e, Exception)\<close>, the test that \<^verbatim>\<open>except Exception\<close> makes.\<close>

definition isinstance_Exception :: "exception \<Rightarrow> bool" where
  "isinstance_Exception e = subclass_of_Exception (exc_cls e)"

subsection \<open>\<^verbatim>\<open>bytes.decode()\<close>\<close>

text \<open>
  The source calls \<^verbatim>\<open>decode()\<close> with no argument, which in Python 3 is
  \<^verbatim>\<open>decode(encoding='utf-8', errors='strict')\<close>: the whole input is decoded as UTF-8 and
  the first ill-formed sequence raises \<^verbatim>\<open>UnicodeDecodeError\<close>. Overlong forms,
  surrogates and values above \<^verbatim>\<open>U+10FFFF\<close> are ill-formed.
\<close>

definition is_continuation :: "8 word \<Rightarrow> bool" where
  "is_continuation b = (0x80 \<le> unat b \<and> unat b \<le> 0xBF)"

text \<open>The payload of a continuation byte (its low six bits).\<close>

definition cont_bits :: "8 word \<Rightarrow> nat" where
  "cont_bits b = unat b - 0x80"

datatype decode_reason = Invalid_start_byte | Invalid_continuation_byte | Unexpected_end_of_data

text \<open>
  One step of the decoder on the lead byte \<open>b\<close> and the bytes \<open>bs\<close> after it:
  \<open>Scalar c k\<close> is the code point \<open>c\<close> read from \<open>b\<close> and the next \<open>k\<close> bytes,
  \<open>Ill_formed r k\<close> the fault with reason \<open>r\<close> on a sequence of which \<open>k\<close> bytes
  were accepted (for \<open>Unexpected_end_of_data\<close> the sequence runs to the end of input).
\<close>

datatype utf8_step = Scalar nat nat | Ill_formed decode_reason nat

definition second_byte_ok3 :: "8 word \<Rightarrow> 8 word \<Rightarrow> bool" where
  "second_byte_ok3 b b1 =
     (is_continuation b1 \<and> \<not> (if unat b1 < 0xA0 then unat b = 0xE0 else unat b = 0xED))"

definition second_byte_ok4 :: "8 word \<Rightarrow> 8 word \<Rightarrow> bool" where
  "second_byte_ok4 b b1 =
     (is_continuation b1 \<and> \<not> (if unat b1 < 0x90 then unat b = 0xF0 else unat b = 0xF4))"

definition utf8_decode_step :: "8 word \<Rightarrow> bytes \<Rightarrow> utf8_step" where
  "utf8_decode_step b bs =
     (if unat b < 0x80 then Scalar (unat b) 0
      else if unat b < 0xC2 then Ill_formed Invalid_start_byte 1
      else if unat b < 0xE0 then
        (case bs of
           [] \<Rightarrow> Ill_formed Unexpected_end_of_data 1
         | b1 # _ \<Rightarrow>
             if \<not> is_continuation b1 then Ill_formed Invalid_continuation_byte 1
             else Scalar ((unat b - 0xC0) * 64 + cont_bits b1) 1)
      else if unat b < 0xF0 then
        (case bs of
           [] \<Rightarrow> Ill_formed Unexpected_end_of_data 1
         | [b1] \<Rightarrow>
             if \<not> second_byte_ok3 b b1 then Ill_formed Invalid_continuation_byte 1
             else Ill_formed Unexpected_end_of_data 2
         | b1 # b2 # _ \<Rightarrow>
             if \<not> second_byte_ok3 b b1 then Ill_formed Invalid_continuation_byte 1
             else if \<not> is_continuation b2 then Ill_formed Invalid_continuation_byte 2
             else Scalar ((unat b - 0xE0) * 4096 + cont_bits b1 * 64 + cont_bits b2) 2)
      else if unat b < 0xF5 then
        (case bs of
           [] \<Rightarrow> Ill_formed Unexpected_end_of_data 1
         | [b1] \<Rightarrow>
             if \<not> second_byte_ok4 b b1 then Ill_formed Invalid_continuation_byte 1
             else Ill_formed Unexpected_end_of_data 2
         | [b1, b2] \<Rightarrow>
             if \<not> second_byte_ok4 b b1 then Ill_formed Invalid_continuation_byte 1
             else if \<not> is_continuation b2 then Ill_formed Invalid_continuation_byte 2
             else Ill_formed Unexpected_end_of_data 3
         | b1 # b2 # b3 # _ \<Rightarrow>
             if \<not> second_byte_ok4 b b1 then Ill_formed Invalid_continuation_byte 1
             else if \<not> is_continuation b2 then Ill_formed Invalid_continuation_byte 2
             else if \<not> is_continuation b3 then Ill_formed Invalid_continuation_byte 3
             else Scalar ((unat b - 0xF0) * 262144 + cont_bits b1 * 4096
                          + cont_bits b2 * 64 + cont_bits b3) 3)
      else Ill_formed Invalid_start_byte 1)"

text \<open>The text of the \<^verbatim>\<open>UnicodeDecodeError\<close>, as \<^verbatim>\<open>str(e)\<close> prints it.\<close>

definition digit_char :: "nat \<Rightarrow> nat" where
  "digit_char d = (if d < 10 then 48 + d else 87 + d)"

fun decimal_fuel :: "nat \<Rightarrow> nat \<Rightarrow> pystr" where
  "decimal_fuel 0 n = [digit_char (n mod 10)]"
| "decimal_fuel (Suc k) n =
     (if n < 10 then [digit_char n] else decimal_fuel k (n div 10) @ [digit_char (n mod 10)])"

definition decimal :: "nat \<Rightarrow> pystr" where
  "decimal n = decimal_fuel n n"

definition hex_byte :: "8 word \<Rightarrow> pystr" where
  "hex_byte b = py_str ''0x'' @ [digit_char (unat b div 16), digit_char (unat b mod 16)]"

fun reason_text :: "decode_reason \<Rightarrow> pystr" where
  "reason_text Invalid_start_byte = py_str ''invalid start byte''"
| "reason_text Invalid_continuation_byte = py_str ''invalid continuation byte''"
| "reason_text Unexpected_end_of_data = py_str ''unexpected end of data''"

definition unicode_decode_error :: "8 word \<Rightarrow> nat \<Rightarrow> nat \<Rightarrow> decode_reason \<Rightarrow> exception" where
  "unicode_decode_error b start len r =
     Exc UnicodeDecodeError
       (if len = 1
        then py_str [CHR 0x27] @ py_str ''utf-8'' @ py_str [CHR 0x27]
             @ py_str '' codec can'' @ py_str [CHR 0x27] @ py_str ''t decode byte ''
             @ hex_byte b @ py_str '' in position '' @ decimal start
             @ py_str '': '' @ reason_text r
        else py_str [CHR 0x27] @ py_str ''utf-8'' @ py_str [CHR 0x27]
             @ py_str '' codec can'' @ py_str [CHR 0x27] @ py_str ''t decode bytes in position ''
             @ decimal start @ py_str ''-'' @ decimal (start + len - 1)
             @ py_str '': '' @ reason_text r)"

text \<open>
  The decoder proper: \<open>pos\<close> is the offset of the next byte in the object being
  decoded, which the error message reports.
\<close>

fun utf8_decode_from :: "nat \<Rightarrow> bytes \<Rightarrow> exception + pystr" where
  "utf8_decode_from pos [] = Inr []"
| "utf8_decode_from pos (b # bs) =
     (case utf8_decode_step b bs of
        Ill_formed r len \<Rightarrow> Inl (unicode_decode_error b pos len r)
      | Scalar c k \<Rightarrow>
          (case utf8_decode_from (pos + 1 + k) (drop k bs) of
             Inl e \<Rightarrow> Inl e
           | Inr s \<Rightarrow> Inr (c # s)))"

definition bytes_decode :: "bytes \<Rightarrow> exception + pystr" where
  "bytes_decode bs = utf8_decode_from 0 bs"

subsection \<open>The environment: shell, child process and event loop\<close>

text \<open>
  What awaiting a library coroutine can do to the calling task: give a value, raise, or
  never resume it (the source sets no timeout, so a child that never exits leaves the
  task suspended for good).
\<close>

datatype 'a awaited = Returns 'a | Raises exception | Never_resumes

text \<open>The handle that \<^verbatim>\<open>create_subprocess_shell\<close> gives back.\<close>

datatype process = Process (pid: nat)

text \<open>
  Text encodings a platform may have as its locale default. The source never asks for
  the locale; the field \<open>locale_encoding\<close> below is there so that statements can
  speak about it.
\<close>

datatype encoding = Utf8 | Latin1

text \<open>
  \<^item> \<open>create_subprocess_shell rt command\<close> is the outcome of
    \<^verbatim>\<open>await asyncio.create_subprocess_shell(command, stdout=PIPE, stderr=PIPE)\<close>;
  \<^item> \<open>communicate rt p\<close> is the outcome of \<^verbatim>\<open>await p.communicate()\<close>: when it
    returns, the bytes captured from the two pipes and the value that
    \<^verbatim>\<open>p.returncode\<close> holds from then on (asyncio sets it before \<^verbatim>\<open>communicate\<close>
    returns: the exit status, or minus the signal number for a child killed by a signal).
\<close>

record runtime =
  create_subprocess_shell :: "pystr \<Rightarrow> process awaited"
  communicate :: "process \<Rightarrow> (bytes \<times> bytes \<times> int) awaited"
  locale_encoding :: encoding

text \<open>The library calls a run makes, in order.\<close>

datatype event = Spawn pystr | Communicate process | Decode bytes

subsection \<open>\<^verbatim>\<open>run_command\<close>\<close>

text \<open>
  \<^verbatim>\<open>b.decode() if b else ""\<close>: an empty \<^verbatim>\<open>bytes\<close> object is falsy, and then
  \<^verbatim>\<open>decode\<close> is not called.
\<close>

definition decode_if_nonempty :: "bytes \<Rightarrow> (exception + pystr) \<times> event list" where
  "decode_if_nonempty b = (if b \<noteq> [] then (bytes_decode b, [Decode b]) else (Inr [], []))"

text \<open>The dictionary of the \<^verbatim>\<open>return\<close> inside the \<^verbatim>\<open>try\<close>.\<close>

definition success_result :: "pystr \<Rightarrow> pystr \<Rightarrow> int \<Rightarrow> pydict" where
  "success_result out err rc =
     [(''stdout'', PyStr out), (''stderr'', PyStr err), (''return_code'', PyInt rc)]"

text \<open>The dictionary of the \<^verbatim>\<open>return\<close> inside the handler.\<close>

definition error_result :: "exception \<Rightarrow> pydict" where
  "error_result e =
     [(''stdout'', PyStr []),
      (''stderr'', PyStr (py_str ''Error executing command: '' @ description e)),
      (''return_code'', PyInt (- 1))]"

text \<open>
  The body of the \<^verbatim>\<open>try\<close> (lines 120 to 134). The values of the dictionary literal
  are evaluated in the order written: \<^verbatim>\<open>stdout\<close> is decoded first, and a fault there
  leaves \<^verbatim>\<open>stderr\<close> undecoded.
\<close>

definition try_body :: "runtime \<Rightarrow> pystr \<Rightarrow> pydict awaited \<times> event list" where
  "try_body rt command =
     (case create_subprocess_shell rt command of
        Never_resumes \<Rightarrow> (Never_resumes, [Spawn command])
      | Raises e \<Rightarrow> (Raises e, [Spawn command])
      | Returns proc \<Rightarrow>
          (case communicate rt proc of
             Never_resumes \<Rightarrow> (Never_resumes, [Spawn command, Communicate proc])
           | Raises e \<Rightarrow> (Raises e, [Spawn command, Communicate proc])
           | Returns (stdout, stderr, returncode) \<Rightarrow>
               (case decode_if_nonempty stdout of
                  (Inl e, t1) \<Rightarrow> (Raises e, [Spawn command, Communicate proc] @ t1)
                | (Inr out, t1) \<Rightarrow>
                    (case decode_if_nonempty stderr of
                       (Inl e, t2) \<Rightarrow>
                         (Raises e, [Spawn command, Communicate proc] @ t1 @ t2)
                     | (Inr err, t2) \<Rightarrow>
                         (Returns (success_result out err returncode),
                          [Spawn command, Communicate proc] @ t1 @ t2)))))"

text \<open>
  The whole function: the body under \<^verbatim>\<open>except Exception as e\<close>. A fault that is not
  an instance of \<^verbatim>\<open>Exception\<close> does not match the handler and leaves the function.
\<close>

definition run_command :: "runtime \<Rightarrow> pystr \<Rightarrow> pydict awaited \<times> event list" where
  "run_command rt command =
     (case try_body rt command of
        (Raises e, t) \<Rightarrow>
          if isinstance_Exception e then (Returns (error_result e), t) else (Raises e, t)
      | (r, t) \<Rightarrow> (r, t))"

text \<open>Reading a key of a dictionary.\<close>

definition dict_get :: "pydict \<Rightarrow> string \<Rightarrow> pyvalue option" where
  "dict_get d k = map_of d k"

subsection \<open>\<^verbatim>\<open>str.encode()\<close> and the decoder of the locale\<close>

text \<open>
  The source never encodes. The encoder is here to say which bytes a child writes when it
  prints a given text in UTF-8: \<^verbatim>\<open>str.encode()\<close> on a string of Unicode scalar values
  (no surrogates).
\<close>

definition is_scalar_value :: "nat \<Rightarrow> bool" where
  "is_scalar_value c = (c < 0xD800 \<or> (0xE000 \<le> c \<and> c < 0x110000))"

definition utf8_encode_char :: "nat \<Rightarrow> bytes" where
  "utf8_encode_char c =
     (if c < 0x80 then [of_nat c]
      else if c < 0x800 then [of_nat (0xC0 + c div 64), of_nat (0x80 + c mod 64)]
      else if c < 0x10000 then
        [of_nat (0xE0 + c div 4096), of_nat (0x80 + c div 64 mod 64), of_nat (0x80 + c mod 64)]
      else
        [of_nat (0xF0 + c div 262144), of_nat (0x80 + c div 4096 mod 64),
         of_nat (0x80 + c div 64 mod 64), of_nat (0x80 + c mod 64)])"

definition str_encode :: "pystr \<Rightarrow> bytes" where
  "str_encode s = concat (map utf8_encode_char s)"



subsection \<open>Some environments\<close>

text \<open>The task is cancelled while it waits for the child.\<close>

definition rt_cancelled :: runtime where
  "rt_cancelled =
     \<lparr> create_subprocess_shell = (\<lambda>c. Returns (Process 4242)),
       communicate = (\<lambda>p. Raises (Exc CancelledError [])),
       locale_encoding = Utf8 \<rparr>"

text \<open>The shell binary is missing: spawning raises \<^verbatim>\<open>FileNotFoundError\<close>.\<close>

definition rt_no_shell :: runtime where
  "rt_no_shell =
     \<lparr> create_subprocess_shell =
         (\<lambda>c. Raises (Exc FileNotFoundError (py_str ''[Errno 2] No such file or directory''))),
       communicate = (\<lambda>p. Never_resumes),
       locale_encoding = Utf8 \<rparr>"

text \<open>Control-C arrives while the process is being created.\<close>

definition rt_interrupted :: runtime where
  "rt_interrupted =
     \<lparr> create_subprocess_shell = (\<lambda>c. Raises (Exc KeyboardInterrupt [])),
       communicate = (\<lambda>p. Never_resumes),
       locale_encoding = Utf8 \<rparr>"

text \<open>The child never exits.\<close>

definition rt_hung :: runtime where
  "rt_hung =
     \<lparr> create_subprocess_shell = (\<lambda>c. Returns (Process 7)),
       communicate = (\<lambda>p. Never_resumes),
       locale_encoding = Utf8 \<rparr>"

text \<open>
  The child is killed by signal 1 (\<^verbatim>\<open>SIGHUP\<close>) before it writes anything; asyncio then
  reports the return code \<open>-1\<close>.
\<close>

definition rt_sighup :: runtime where
  "rt_sighup =
     \<lparr> create_subprocess_shell = (\<lambda>c. Returns (Process 99)),
       communicate = (\<lambda>p. Returns ([], [], - 1)),
       locale_encoding = Utf8 \<rparr>"

text \<open>The child writes nothing and exits with status 0 (the command \<^verbatim>\<open>true\<close>).\<close>

definition rt_silent :: runtime where
  "rt_silent =
     \<lparr> create_subprocess_shell = (\<lambda>c. Returns (Process 5)),
       communicate = (\<lambda>p. Returns ([], [], 0)),
       locale_encoding = Utf8 \<rparr>"

text \<open>The child writes \<^verbatim>\<open>hello\<close> and a line feed and exits with status 0.\<close>

definition rt_echo :: runtime where
  "rt_echo =
     \<lparr> create_subprocess_shell = (\<lambda>c. Returns (Process 31)),
       communicate = (\<lambda>p. Returns ([0x68, 0x65, 0x6C, 0x6C, 0x6F, 0x0A], [], 0)),
       locale_encoding = Utf8 \<rparr>"

text \<open>
  The child writes the single byte \<^verbatim>\<open>0xFF\<close> to its standard output and exits with
  status 0 (\<^verbatim>\<open>printf\<close> with the octal escape 377).
\<close>

definition rt_invalid_stdout :: runtime where
  "rt_invalid_stdout =
     \<lparr> create_subprocess_shell = (\<lambda>c. Returns (Process 12)),
       communicate = (\<lambda>p. Returns ([0xFF], [], 0)),
       locale_encoding = Utf8 \<rparr>"

text \<open>
  The child writes \<^verbatim>\<open>ok\<close> to its standard output, the single byte \<^verbatim>\<open>0x80\<close> to its
  standard error, and exits with status 0.
\<close>

definition rt_invalid_stderr :: runtime where
  "rt_invalid_stderr =
     \<lparr> create_subprocess_shell = (\<lambda>c. Returns (Process 13)),
       communicate = (\<lambda>p. Returns ([0x6F, 0x6B], [0x80], 0)),
       locale_encoding = Utf8 \<rparr>"


text \<open>
  Two invocations of \<^verbatim>\<open>echo hi\<close>: the process handles differ, the locales differ, and
  other commands behave differently, but the child of \<^verbatim>\<open>echo hi\<close> does the same.
\<close>

definition rt_first :: runtime where
  "rt_first =
     \<lparr> create_subprocess_shell =
         (\<lambda>c. if c = py_str ''echo hi'' then Returns (Process 100)
              else Raises (Exc OSError (py_str ''busy''))),
       communicate = (\<lambda>p. Returns ([0x68, 0x69, 0x0A], [], 0)),
       locale_encoding = Utf8 \<rparr>"

definition rt_second :: runtime where
  "rt_second =
     \<lparr> create_subprocess_shell = (\<lambda>c. Returns (Process 101)),
       communicate =
         (\<lambda>p. if p = Process 101 then Returns ([0x68, 0x69, 0x0A], [], 0) else Never_resumes),
       locale_encoding = Latin1 \<rparr>"

section \<open>Properties\<close>

subsection \<open>The decoder\<close>

lemma bytes_decode_empty: "bytes_decode [] = Inr []"
  by (simp add: bytes_decode_def)

lemma step_1byte: "unat b < 0x80 \<Longrightarrow> utf8_decode_step b bs = Scalar (unat b) 0"
  by (simp add: utf8_decode_step_def)

lemma step_2byte:
  "0xC2 \<le> unat b \<Longrightarrow> unat b < 0xE0 \<Longrightarrow> is_continuation b1 \<Longrightarrow>
     utf8_decode_step b (b1 # bs) = Scalar ((unat b - 0xC0) * 64 + cont_bits b1) 1"
  by (simp add: utf8_decode_step_def)

lemma step_3byte:
  "0xE0 \<le> unat b \<Longrightarrow> unat b < 0xF0 \<Longrightarrow> second_byte_ok3 b b1 \<Longrightarrow> is_continuation b2 \<Longrightarrow>
     utf8_decode_step b (b1 # b2 # bs) =
       Scalar ((unat b - 0xE0) * 4096 + cont_bits b1 * 64 + cont_bits b2) 2"
  by (simp add: utf8_decode_step_def)

lemma step_4byte:
  "0xF0 \<le> unat b \<Longrightarrow> unat b < 0xF5 \<Longrightarrow> second_byte_ok4 b b1 \<Longrightarrow> is_continuation b2 \<Longrightarrow>
   is_continuation b3 \<Longrightarrow>
     utf8_decode_step b (b1 # b2 # b3 # bs) =
       Scalar ((unat b - 0xF0) * 262144 + cont_bits b1 * 4096 + cont_bits b2 * 64 + cont_bits b3) 3"
  by (simp add: utf8_decode_step_def)

lemma unat_byte: "n < 256 \<Longrightarrow> unat (of_nat n :: 8 word) = n"
  by (simp add: unat_of_nat)

lemma div_4096: "(c::nat) div 4096 = c div 64 div 64"
  by (simp add: div_mult2_eq [symmetric])

lemma div_262144: "(c::nat) div 262144 = c div 64 div 64 div 64"
  by (simp add: div_mult2_eq [symmetric])

lemma cont_byte:
  assumes "m < 64"
  shows "is_continuation (of_nat (0x80 + m))" and "cont_bits (of_nat (0x80 + m)) = m"
proof -
  have "unat (of_nat (0x80 + m) :: 8 word) = 0x80 + m"
    by (rule unat_byte) (use assms in simp)
  then show "is_continuation (of_nat (0x80 + m))" and "cont_bits (of_nat (0x80 + m)) = m"
    unfolding is_continuation_def cont_bits_def using assms by simp_all
qed

lemma encode_step1:
  assumes "c < 0x80"
  shows "utf8_decode_step (of_nat c) bs = Scalar c 0"
proof -
  have u: "unat (of_nat c :: 8 word) = c"
    by (rule unat_byte) (use assms in simp)
  show ?thesis
    using step_1byte [of "of_nat c" bs] assms unfolding u by simp
qed

lemma encode_step2:
  assumes "0x80 \<le> c" "c < 0x800"
  shows "utf8_decode_step (of_nat (0xC0 + c div 64)) (of_nat (0x80 + c mod 64) # bs) = Scalar c 1"
proof -
  have d: "2 \<le> c div 64" "c div 64 < 32"
    using assms by simp_all
  have u: "unat (of_nat (0xC0 + c div 64) :: 8 word) = 0xC0 + c div 64"
    by (rule unat_byte) (use d in simp)
  have m: "c mod 64 < 64" by simp
  have lo: "0xC2 \<le> unat (of_nat (0xC0 + c div 64) :: 8 word)"
    and hi: "unat (of_nat (0xC0 + c div 64) :: 8 word) < 0xE0"
    unfolding u using d by simp_all
  have "(unat (of_nat (0xC0 + c div 64) :: 8 word) - 0xC0) * 64
               + cont_bits (of_nat (0x80 + c mod 64)) = c"
    unfolding u cont_byte(2) [OF m] by simp
  with step_2byte [OF lo hi cont_byte(1) [OF m], of bs] show ?thesis
    by (simp only:)
qed

lemma encode_step3:
  assumes "0x800 \<le> c" "c < 0x10000" "is_scalar_value c"
  shows "utf8_decode_step (of_nat (0xE0 + c div 4096))
           (of_nat (0x80 + c div 64 mod 64) # of_nat (0x80 + c mod 64) # bs) = Scalar c 2"
proof -
  define q1 where "q1 = c div 64"
  define q2 where "q2 = q1 div 64"
  have c: "c = q1 * 64 + c mod 64" and q1: "q1 = q2 * 64 + q1 mod 64"
    unfolding q1_def q2_def by simp_all
  have r0: "c mod 64 < 64" and r1: "q1 mod 64 < 64" by simp_all
  have q: "c div 4096 = q2" "c div 64 = q1"
    unfolding q1_def q2_def by (simp_all add: div_4096)
  have d: "q2 < 16" using c q1 r0 r1 assms(2) by linarith
  have u: "unat (of_nat (0xE0 + q2) :: 8 word) = 0xE0 + q2"
    by (rule unat_byte) (use d in simp)
  have u1: "unat (of_nat (0x80 + q1 mod 64) :: 8 word) = 0x80 + q1 mod 64"
    by (rule unat_byte) (use r1 in simp)
  have lo: "0xE0 \<le> unat (of_nat (0xE0 + q2) :: 8 word)"
    and hi: "unat (of_nat (0xE0 + q2) :: 8 word) < 0xF0"
    unfolding u using d by simp_all
  have e0: "q1 mod 64 < 32 \<Longrightarrow> q2 \<noteq> 0"
    using c q1 r0 assms(1) by linarith
  have ed: "\<not> q1 mod 64 < 32 \<Longrightarrow> q2 \<noteq> 13"
    using c q1 r0 r1 assms(2,3) unfolding is_scalar_value_def by linarith
  have ok: "second_byte_ok3 (of_nat (0xE0 + q2)) (of_nat (0x80 + q1 mod 64))"
    unfolding second_byte_ok3_def u u1 using e0 ed cont_byte(1) [OF r1] by simp
  have "(unat (of_nat (0xE0 + q2) :: 8 word) - 0xE0) * 4096
          + cont_bits (of_nat (0x80 + q1 mod 64)) * 64
          + cont_bits (of_nat (0x80 + c mod 64)) = c"
    unfolding u cont_byte(2) [OF r1] cont_byte(2) [OF r0] using c q1 by simp
  with step_3byte [OF lo hi ok cont_byte(1) [OF r0], of bs] show ?thesis
    unfolding q by (simp only:)
qed

lemma encode_step4:
  assumes "0x10000 \<le> c" "c < 0x110000"
  shows "utf8_decode_step (of_nat (0xF0 + c div 262144))
           (of_nat (0x80 + c div 4096 mod 64) # of_nat (0x80 + c div 64 mod 64)
              # of_nat (0x80 + c mod 64) # bs) = Scalar c 3"
proof -
  define q1 where "q1 = c div 64"
  define q2 where "q2 = q1 div 64"
  define q3 where "q3 = q2 div 64"
  have c: "c = q1 * 64 + c mod 64" and q1: "q1 = q2 * 64 + q1 mod 64"
    and q2: "q2 = q3 * 64 + q2 mod 64"
    unfolding q1_def q2_def q3_def by simp_all
  have r0: "c mod 64 < 64" and r1: "q1 mod 64 < 64" and r2: "q2 mod 64 < 64" by simp_all
  have q: "c div 262144 = q3" "c div 4096 = q2" "c div 64 = q1"
    unfolding q1_def q2_def q3_def by (simp_all add: div_4096 div_262144)
  have d: "q3 < 5" using c q1 q2 r0 r1 r2 assms(2) by linarith
  have u: "unat (of_nat (0xF0 + q3) :: 8 word) = 0xF0 + q3"
    by (rule unat_byte) (use d in simp)
  have u1: "unat (of_nat (0x80 + q2 mod 64) :: 8 word) = 0x80 + q2 mod 64"
    by (rule unat_byte) (use r2 in simp)
  have lo: "0xF0 \<le> unat (of_nat (0xF0 + q3) :: 8 word)"
    and hi: "unat (of_nat (0xF0 + q3) :: 8 word) < 0xF5"
    unfolding u using d by simp_all
  have e0: "q2 mod 64 < 16 \<Longrightarrow> q3 \<noteq> 0"
    using c q1 q2 r0 r1 assms(1) by linarith
  have e4: "\<not> q2 mod 64 < 16 \<Longrightarrow> q3 \<noteq> 4"
    using c q1 q2 r0 r1 r2 assms(2) by linarith
  have ok: "second_byte_ok4 (of_nat (0xF0 + q3)) (of_nat (0x80 + q2 mod 64))"
    unfolding second_byte_ok4_def u u1 using e0 e4 cont_byte(1) [OF r2] by simp
  have "(unat (of_nat (0xF0 + q3) :: 8 word) - 0xF0) * 262144
          + cont_bits (of_nat (0x80 + q2 mod 64)) * 4096
          + cont_bits (of_nat (0x80 + q1 mod 64)) * 64
          + cont_bits (of_nat (0x80 + c mod 64)) = c"
    unfolding u cont_byte(2) [OF r2] cont_byte(2) [OF r1] cont_byte(2) [OF r0]
    using c q1 q2 by simp
  with step_4byte [OF lo hi ok cont_byte(1) [OF r1] cont_byte(1) [OF r0], of bs] show ?thesis
    unfolding q by (simp only:)
qed

lemma decode_encode_char:
  assumes "is_scalar_value c"
  shows "utf8_decode_from pos (utf8_encode_char c @ rest) =
           (case utf8_decode_from (pos + length (utf8_encode_char c)) rest of
              Inl e \<Rightarrow> Inl e | Inr s \<Rightarrow> Inr (c # s))"
proof -
  consider "c < 0x80" | "0x80 \<le> c" "c < 0x800" | "0x800 \<le> c" "c < 0x10000"
    | "0x10000 \<le> c" "c < 0x110000"
    using assms unfolding is_scalar_value_def by linarith
  then show ?thesis
  proof cases
    case 1
    have "utf8_encode_char c = [of_nat c]"
      using 1 unfolding utf8_encode_char_def by simp
    then show ?thesis
      using encode_step1 [OF 1] by simp
  next
    case 2
    have "utf8_encode_char c = [of_nat (0xC0 + c div 64), of_nat (0x80 + c mod 64)]"
      using 2 unfolding utf8_encode_char_def by simp
    then show ?thesis
      using encode_step2 [OF 2, of rest] by (simp add: add.commute)
  next
    case 3
    have "utf8_encode_char c =
            [of_nat (0xE0 + c div 4096), of_nat (0x80 + c div 64 mod 64), of_nat (0x80 + c mod 64)]"
      using 3 unfolding utf8_encode_char_def by simp
    then show ?thesis
      using encode_step3 [OF 3 assms, of rest] by (simp add: add.commute)
  next
    case 4
    have "utf8_encode_char c =
            [of_nat (0xF0 + c div 262144), of_nat (0x80 + c div 4096 mod 64),
             of_nat (0x80 + c div 64 mod 64), of_nat (0x80 + c mod 64)]"
      using 4 unfolding utf8_encode_char_def by simp
    moreover have p4: "4 + pos = Suc (Suc (Suc (Suc pos)))"
      by simp
    ultimately show ?thesis
      using encode_step4 [OF 4, of rest] by (simp add: p4)
  qed
qed

lemma decode_from_encode:
  "\<forall>c \<in> set s. is_scalar_value c \<Longrightarrow> utf8_decode_from pos (str_encode s) = Inr s"
proof (induction s arbitrary: pos)
  case Nil
  then show ?case by (simp add: str_encode_def)
next
  case (Cons c s)
  have e: "str_encode (c # s) = utf8_encode_char c @ str_encode s"
    by (simp add: str_encode_def)
  from Cons have "utf8_decode_from (pos + length (utf8_encode_char c)) (str_encode s) = Inr s"
    by simp
  with Cons.prems show ?case
    unfolding e by (simp add: decode_encode_char)
qed

lemma bytes_decode_str_encode:
  "\<forall>c \<in> set s. is_scalar_value c \<Longrightarrow> bytes_decode (str_encode s) = Inr s"
  by (simp add: bytes_decode_def decode_from_encode)

text \<open>The decoder raises nothing but \<^verbatim>\<open>UnicodeDecodeError\<close>.\<close>

lemma exc_cls_unicode_decode_error:
  "exc_cls (unicode_decode_error b start len r) = UnicodeDecodeError"
  by (simp add: unicode_decode_error_def)

lemma utf8_decode_from_fault:
  "utf8_decode_from pos bs = Inl e \<Longrightarrow> exc_cls e = UnicodeDecodeError"
proof (induction pos bs rule: utf8_decode_from.induct)
  case (1 pos)
  then show ?case by simp
next
  case (2 pos b bs)
  show ?case
  proof (cases "utf8_decode_step b bs")
    case (Scalar c k)
    with 2 show ?thesis
      by (auto split: sum.splits)
  next
    case (Ill_formed r len)
    with 2 show ?thesis
      by (auto simp add: exc_cls_unicode_decode_error)
  qed
qed

lemma bytes_decode_fault: "bytes_decode bs = Inl e \<Longrightarrow> isinstance_Exception e"
  by (simp add: bytes_decode_def isinstance_Exception_def utf8_decode_from_fault)

subsection \<open>The paths through \<^verbatim>\<open>run_command\<close>\<close>

lemma decode_if_nonempty_eq:
  "decode_if_nonempty b = (bytes_decode b, if b = [] then [] else [Decode b])"
  by (simp add: decode_if_nonempty_def bytes_decode_empty)

lemma try_body_spawn_raises:
  "create_subprocess_shell rt c = Raises e \<Longrightarrow> try_body rt c = (Raises e, [Spawn c])"
  by (simp add: try_body_def)

lemma try_body_spawn_never:
  "create_subprocess_shell rt c = Never_resumes \<Longrightarrow> try_body rt c = (Never_resumes, [Spawn c])"
  by (simp add: try_body_def)

lemma try_body_communicate_raises:
  "create_subprocess_shell rt c = Returns p \<Longrightarrow> communicate rt p = Raises e \<Longrightarrow>
     try_body rt c = (Raises e, [Spawn c, Communicate p])"
  by (simp add: try_body_def)

lemma try_body_communicate_never:
  "create_subprocess_shell rt c = Returns p \<Longrightarrow> communicate rt p = Never_resumes \<Longrightarrow>
     try_body rt c = (Never_resumes, [Spawn c, Communicate p])"
  by (simp add: try_body_def)

lemma try_body_stdout_fault:
  "create_subprocess_shell rt c = Returns p \<Longrightarrow> communicate rt p = Returns (out, err, rc) \<Longrightarrow>
   bytes_decode out = Inl e \<Longrightarrow>
     try_body rt c = (Raises e, [Spawn c, Communicate p, Decode out])"
  by (auto simp add: try_body_def decode_if_nonempty_eq bytes_decode_empty)

lemma try_body_stderr_fault:
  "create_subprocess_shell rt c = Returns p \<Longrightarrow> communicate rt p = Returns (out, err, rc) \<Longrightarrow>
   bytes_decode out = Inr s \<Longrightarrow> bytes_decode err = Inl e \<Longrightarrow>
     fst (try_body rt c) = Raises e"
  by (auto simp add: try_body_def decode_if_nonempty_eq bytes_decode_empty)

lemma try_body_success:
  "create_subprocess_shell rt c = Returns p \<Longrightarrow> communicate rt p = Returns (out, err, rc) \<Longrightarrow>
   bytes_decode out = Inr s \<Longrightarrow> bytes_decode err = Inr t \<Longrightarrow>
     try_body rt c =
       (Returns (success_result s t rc),
        [Spawn c, Communicate p] @ (if out = [] then [] else [Decode out])
          @ (if err = [] then [] else [Decode err]))"
  by (simp add: try_body_def decode_if_nonempty_eq)

lemma try_body_Returns_D:
  assumes "fst (try_body rt c) = Returns d"
  shows "\<exists>p out err rc s t. create_subprocess_shell rt c = Returns p
           \<and> communicate rt p = Returns (out, err, rc)
           \<and> bytes_decode out = Inr s \<and> bytes_decode err = Inr t
           \<and> d = success_result s t rc"
  using assms
  by (auto simp add: try_body_def decode_if_nonempty_eq
      split: awaited.splits prod.splits sum.splits)

lemma try_body_Raises_D:
  assumes "fst (try_body rt c) = Raises e"
  shows "create_subprocess_shell rt c = Raises e
       \<or> (\<exists>p. create_subprocess_shell rt c = Returns p
            \<and> (communicate rt p = Raises e
               \<or> (\<exists>out err rc. communicate rt p = Returns (out, err, rc)
                    \<and> (bytes_decode out = Inl e
                        \<or> (\<exists>s. bytes_decode out = Inr s) \<and> bytes_decode err = Inl e))))"
  using assms
  by (auto simp add: try_body_def decode_if_nonempty_eq
      split: awaited.splits prod.splits sum.splits)

lemma run_command_of_Returns:
  "fst (try_body rt c) = Returns d \<Longrightarrow> run_command rt c = try_body rt c"
  by (cases "try_body rt c") (simp add: run_command_def)

lemma run_command_of_Never:
  "fst (try_body rt c) = Never_resumes \<Longrightarrow> run_command rt c = try_body rt c"
  by (cases "try_body rt c") (simp add: run_command_def)

lemma run_command_of_Raises:
  "fst (try_body rt c) = Raises e \<Longrightarrow>
     run_command rt c =
       (if isinstance_Exception e then Returns (error_result e) else Raises e, snd (try_body rt c))"
  by (cases "try_body rt c") (simp add: run_command_def)


lemma run_command_Raises_D:
  assumes "fst (run_command rt c) = Raises e"
  shows "fst (try_body rt c) = Raises e \<and> \<not> isinstance_Exception e"
proof (cases "fst (try_body rt c)")
  case (Returns d)
  with assms show ?thesis by (simp add: run_command_of_Returns)
next
  case (Raises e')
  with assms show ?thesis by (simp add: run_command_of_Raises split: if_splits)
next
  case Never_resumes
  with assms show ?thesis by (simp add: run_command_of_Never)
qed

section \<open>The claims\<close>

subsection \<open>C1: faults are turned into an error result\<close>

text \<open>
  C1 as stated fails: a fault that is not an instance of \<^verbatim>\<open>Exception\<close> passes the
  handler. Here the task is cancelled while it awaits \<^verbatim>\<open>communicate()\<close>; the
  \<^verbatim>\<open>CancelledError\<close> raised during stream collection leaves \<^verbatim>\<open>run_command\<close> as a
  raised exception.
\<close>

theorem cancellation_escapes_run_command:
  "create_subprocess_shell rt_cancelled (py_str ''sleep 5'') = Returns (Process 4242)
   \<and> communicate rt_cancelled (Process 4242) = Raises (Exc CancelledError [])
   \<and> fst (run_command rt_cancelled (py_str ''sleep 5'')) = Raises (Exc CancelledError [])"
  by (simp add: rt_cancelled_def run_command_def try_body_def isinstance_Exception_def)

text \<open>
  C1, amended: for every command string, if a fault of class \<^verbatim>\<open>Exception\<close> is raised
  during process creation, stream collection, decoding or result construction (in result
  construction nothing but the decoding can raise: of the standard output, or of the
  standard error once the standard output has been decoded), \<^verbatim>\<open>run_command\<close>
  catches it and returns the result with \<^verbatim>\<open>stdout\<close> the empty string, \<^verbatim>\<open>stderr\<close> the
  text \<^verbatim>\<open>Error executing command: \<close> followed by the fault's description, and
  \<^verbatim>\<open>return_code\<close> equal to \<open>-1\<close>; and no fault of class \<^verbatim>\<open>Exception\<close> is ever
  propagated to the caller.
\<close>

theorem run_command_catches_Exception:
  "(isinstance_Exception e
    \<and> (create_subprocess_shell rt command = Raises e
       \<or> (\<exists>p. create_subprocess_shell rt command = Returns p
            \<and> (communicate rt p = Raises e
               \<or> (\<exists>out err rc. communicate rt p = Returns (out, err, rc)
                    \<and> (bytes_decode out = Inl e
                        \<or> (\<exists>s. bytes_decode out = Inr s) \<and> bytes_decode err = Inl e)))))
    \<longrightarrow> fst (run_command rt command) =
           Returns [(''stdout'', PyStr []),
                    (''stderr'', PyStr (py_str ''Error executing command: '' @ description e)),
                    (''return_code'', PyInt (- 1))])
   \<and> (\<forall>e'. fst (run_command rt command) = Raises e' \<longrightarrow> \<not> isinstance_Exception e')"
proof (intro conjI impI allI)
  assume a: "isinstance_Exception e
    \<and> (create_subprocess_shell rt command = Raises e
       \<or> (\<exists>p. create_subprocess_shell rt command = Returns p
            \<and> (communicate rt p = Raises e
               \<or> (\<exists>out err rc. communicate rt p = Returns (out, err, rc)
                    \<and> (bytes_decode out = Inl e
                        \<or> (\<exists>s. bytes_decode out = Inr s) \<and> bytes_decode err = Inl e)))))"
  then have "fst (try_body rt command) = Raises e"
    by (auto simp add: try_body_spawn_raises try_body_communicate_raises
        try_body_stdout_fault try_body_stderr_fault)
  with a have "fst (run_command rt command) = Returns (error_result e)"
    by (simp add: run_command_of_Raises)
  then show "fst (run_command rt command) =
           Returns [(''stdout'', PyStr []),
                    (''stderr'', PyStr (py_str ''Error executing command: '' @ description e)),
                    (''return_code'', PyInt (- 1))]"
    by (simp add: error_result_def)
next
  fix e'
  assume "fst (run_command rt command) = Raises e'"
  then show "\<not> isinstance_Exception e'"
    by (simp add: run_command_Raises_D)
qed

text \<open>
  A missing shell gives the error result; what an interrupted run raises is not an
  \<^verbatim>\<open>Exception\<close>.
\<close>

theorem run_command_catches_Exception_witness:
  "isinstance_Exception (Exc FileNotFoundError (py_str ''[Errno 2] No such file or directory''))
   \<and> create_subprocess_shell rt_no_shell (py_str ''ls'')
       = Raises (Exc FileNotFoundError (py_str ''[Errno 2] No such file or directory''))
   \<and> fst (run_command rt_no_shell (py_str ''ls'')) =
        Returns [(''stdout'', PyStr []),
                 (''stderr'', PyStr (py_str ''Error executing command: ''
                                      @ py_str ''[Errno 2] No such file or directory'')),
                 (''return_code'', PyInt (- 1))]
   \<and> fst (run_command rt_interrupted (py_str ''ls'')) = Raises (Exc KeyboardInterrupt [])
   \<and> \<not> isinstance_Exception (Exc KeyboardInterrupt [])"
proof -
  have r: "fst (run_command rt_interrupted (py_str ''ls'')) = Raises (Exc KeyboardInterrupt [])"
    by (simp add: rt_interrupted_def run_command_def try_body_def isinstance_Exception_def)
  show ?thesis
    using run_command_catches_Exception
      [of "Exc FileNotFoundError (py_str ''[Errno 2] No such file or directory'')"
        rt_no_shell "py_str ''ls''"]
      run_command_catches_Exception [of _ rt_interrupted "py_str ''ls''"] r
    by (simp add: rt_no_shell_def isinstance_Exception_def)
qed

subsection \<open>C2: the result of a run that was spawned and awaited\<close>

text \<open>
  C2 as stated fails: the child is spawned and awaited, exits with status 0, and has
  written one byte that is not UTF-8. The result is the error result: \<^verbatim>\<open>stdout\<close> is
  empty and \<^verbatim>\<open>return_code\<close> is \<open>-1\<close>, not the exit code 0.
\<close>

theorem undecodable_stdout_not_reported:
  "create_subprocess_shell rt_invalid_stdout (py_str ''printf'') = Returns (Process 12)
   \<and> communicate rt_invalid_stdout (Process 12) = Returns ([0xFF], [], 0)
   \<and> fst (run_command rt_invalid_stdout (py_str ''printf''))
       = Returns (error_result (unicode_decode_error 0xFF 0 1 Invalid_start_byte))
   \<and> dict_get (error_result (unicode_decode_error 0xFF 0 1 Invalid_start_byte)) ''return_code''
       = Some (PyInt (- 1))
   \<and> dict_get (error_result (unicode_decode_error 0xFF 0 1 Invalid_start_byte)) ''stdout''
       = Some (PyStr [])"
proof -
  have d: "bytes_decode [0xFF] = Inl (unicode_decode_error 0xFF 0 1 Invalid_start_byte)"
    by (simp add: bytes_decode_def utf8_decode_step_def)
  have "fst (try_body rt_invalid_stdout (py_str ''printf''))
          = Raises (unicode_decode_error 0xFF 0 1 Invalid_start_byte)"
    using try_body_stdout_fault [of rt_invalid_stdout "py_str ''printf''" "Process 12"
        "[0xFF]" "[]" 0, OF _ _ d]
    by (simp add: rt_invalid_stdout_def)
  then have "fst (run_command rt_invalid_stdout (py_str ''printf''))
       = Returns (error_result (unicode_decode_error 0xFF 0 1 Invalid_start_byte))"
    using bytes_decode_fault [OF d] by (simp add: run_command_of_Raises)
  then show ?thesis
    by (simp add: rt_invalid_stdout_def dict_get_def error_result_def)
qed

text \<open>
  C2, amended: for every command string whose child process is spawned and awaited and
  whose two captured streams are well-formed UTF-8 (the empty stream included),
  \<^verbatim>\<open>run_command\<close> returns the result whose \<^verbatim>\<open>stdout\<close> and \<^verbatim>\<open>stderr\<close> are the
  decoded streams and whose \<^verbatim>\<open>return_code\<close> is the return code of the process. In
  particular, when the child prints a fixed text in UTF-8, writes nothing to its standard
  error and exits with status 0, the result has that text in \<^verbatim>\<open>stdout\<close>, the empty
  string in \<^verbatim>\<open>stderr\<close> and 0 in \<^verbatim>\<open>return_code\<close>.
\<close>

theorem run_command_success_result:
  assumes "create_subprocess_shell rt command = Returns p"
    and "communicate rt p = Returns (out, err, rc)"
  shows "(bytes_decode out = Inr s \<and> bytes_decode err = Inr t \<longrightarrow>
            fst (run_command rt command) =
              Returns [(''stdout'', PyStr s), (''stderr'', PyStr t), (''return_code'', PyInt rc)])
       \<and> ((\<forall>c \<in> set printed. is_scalar_value c) \<and> out = str_encode printed \<and> err = [] \<and> rc = 0 \<longrightarrow>
            fst (run_command rt command) =
              Returns [(''stdout'', PyStr printed), (''stderr'', PyStr []), (''return_code'', PyInt 0)])"
proof -
  have main: "fst (run_command rt command) = Returns (success_result s' t' rc)"
    if "bytes_decode out = Inr s'" and "bytes_decode err = Inr t'" for s' t'
  proof -
    from try_body_success [OF assms that]
    have "fst (try_body rt command) = Returns (success_result s' t' rc)"
      by simp
    then show ?thesis
      by (simp add: run_command_of_Returns)
  qed
  show ?thesis
  proof (intro conjI impI)
    assume "bytes_decode out = Inr s \<and> bytes_decode err = Inr t"
    then show "fst (run_command rt command) =
              Returns [(''stdout'', PyStr s), (''stderr'', PyStr t), (''return_code'', PyInt rc)]"
      using main [of s t] by (simp add: success_result_def)
  next
    assume a: "(\<forall>c \<in> set printed. is_scalar_value c) \<and> out = str_encode printed \<and> err = [] \<and> rc = 0"
    then have "bytes_decode out = Inr printed" and "bytes_decode err = Inr []"
      by (simp_all add: bytes_decode_str_encode bytes_decode_empty)
    then show "fst (run_command rt command) =
              Returns [(''stdout'', PyStr printed), (''stderr'', PyStr []), (''return_code'', PyInt 0)]"
      using main [of printed "[]"] a by (simp add: success_result_def)
  qed
qed

text \<open>The run of \<^verbatim>\<open>echo hello\<close>.\<close>

theorem run_command_success_result_witness:
  "create_subprocess_shell rt_echo (py_str ''echo hello'') = Returns (Process 31)
   \<and> communicate rt_echo (Process 31) = Returns ([0x68, 0x65, 0x6C, 0x6C, 0x6F, 0x0A], [], 0)
   \<and> bytes_decode [0x68, 0x65, 0x6C, 0x6C, 0x6F, 0x0A] = Inr (py_str ''hello'' @ [10])
   \<and> bytes_decode [] = Inr []
   \<and> list_all is_scalar_value (py_str ''hello'' @ [10])
   \<and> str_encode (py_str ''hello'' @ [10]) = [0x68, 0x65, 0x6C, 0x6C, 0x6F, 0x0A]
   \<and> fst (run_command rt_echo (py_str ''echo hello'')) =
        Returns [(''stdout'', PyStr (py_str ''hello'' @ [10])), (''stderr'', PyStr []),
                 (''return_code'', PyInt 0)]"
proof -
  have sp: "create_subprocess_shell rt_echo (py_str ''echo hello'') = Returns (Process 31)"
    and co: "communicate rt_echo (Process 31) = Returns ([0x68, 0x65, 0x6C, 0x6C, 0x6F, 0x0A], [], 0)"
    by (simp_all add: rt_echo_def)
  have sc: "\<forall>c \<in> set (py_str ''hello'' @ [10]). is_scalar_value c"
    by (simp add: py_str_def is_scalar_value_def)
  have en: "str_encode (py_str ''hello'' @ [10]) = [0x68, 0x65, 0x6C, 0x6C, 0x6F, 0x0A]"
    by (simp add: py_str_def str_encode_def utf8_encode_char_def)
  have de: "bytes_decode [0x68, 0x65, 0x6C, 0x6C, 0x6F, 0x0A] = Inr (py_str ''hello'' @ [10])"
    by (simp add: py_str_def bytes_decode_def step_1byte)
  show ?thesis
    using run_command_success_result [OF sp co, of "py_str ''hello'' @ [10]" "[]"
        "py_str ''hello'' @ [10]"] sp co sc en de
    by (simp add: bytes_decode_empty list_all_iff)
qed

subsection \<open>C3: where a return code of \<open>-1\<close> comes from\<close>

text \<open>
  C3 as stated fails, twice. A child that was spawned and awaited and exited with status 0
  has written a byte to its standard error that is not UTF-8: the result carries
  \<open>-1\<close>, from the error path, and not the status the child reported. And a child killed
  by signal 1 is reported by asyncio with the return code \<open>-1\<close>, which the success path
  hands on: \<open>-1\<close> is then an actual reported status.
\<close>

theorem minus_one_not_reserved:
  "create_subprocess_shell rt_invalid_stderr (py_str ''job'') = Returns (Process 13)
   \<and> communicate rt_invalid_stderr (Process 13) = Returns ([0x6F, 0x6B], [0x80], 0)
   \<and> fst (run_command rt_invalid_stderr (py_str ''job''))
       = Returns (error_result (unicode_decode_error 0x80 0 1 Invalid_start_byte))
   \<and> dict_get (error_result (unicode_decode_error 0x80 0 1 Invalid_start_byte)) ''return_code''
       = Some (PyInt (- 1))
   \<and> communicate rt_sighup (Process 99) = Returns ([], [], - 1)
   \<and> try_body rt_sighup (py_str ''job'')
       = (Returns (success_result [] [] (- 1)), [Spawn (py_str ''job''), Communicate (Process 99)])
   \<and> fst (run_command rt_sighup (py_str ''job'')) = Returns (success_result [] [] (- 1))
   \<and> dict_get (success_result [] [] (- 1)) ''return_code'' = Some (PyInt (- 1))"
proof -
  have d1: "bytes_decode [0x6F, 0x6B] = Inr [0x6F, 0x6B]"
    by (simp add: bytes_decode_def step_1byte)
  have d2: "bytes_decode [0x80] = Inl (unicode_decode_error 0x80 0 1 Invalid_start_byte)"
    by (simp add: bytes_decode_def utf8_decode_step_def)
  have "fst (try_body rt_invalid_stderr (py_str ''job''))
          = Raises (unicode_decode_error 0x80 0 1 Invalid_start_byte)"
    using try_body_stderr_fault [of rt_invalid_stderr "py_str ''job''" "Process 13"
        "[0x6F, 0x6B]" "[0x80]" 0, OF _ _ d1 d2]
    by (simp add: rt_invalid_stderr_def)
  then have a: "fst (run_command rt_invalid_stderr (py_str ''job''))
       = Returns (error_result (unicode_decode_error 0x80 0 1 Invalid_start_byte))"
    using bytes_decode_fault [OF d2] by (simp add: run_command_of_Raises)
  have b: "try_body rt_sighup (py_str ''job'')
       = (Returns (success_result [] [] (- 1)), [Spawn (py_str ''job''), Communicate (Process 99)])"
    using try_body_success [of rt_sighup "py_str ''job''" "Process 99" "[]" "[]" "- 1" "[]" "[]"]
    by (simp add: rt_sighup_def bytes_decode_empty)
  then have c: "fst (run_command rt_sighup (py_str ''job'')) = Returns (success_result [] [] (- 1))"
    by (simp add: run_command_of_Returns)
  show ?thesis
    using a b c
    by (simp add: rt_invalid_stderr_def rt_sighup_def dict_get_def error_result_def
        success_result_def)
qed

text \<open>
  C3, amended: for every invocation in which the shell process was spawned and awaited
  and both captured streams are well-formed UTF-8 (or empty), the returned
  \<^verbatim>\<open>return_code\<close> is exactly what the process reported, and the result is the one of the
  success path, not of the error path. A returned \<^verbatim>\<open>return_code\<close> of \<open>-1\<close> comes
  either from the error path, after a caught fault of class \<^verbatim>\<open>Exception\<close>, or from the
  success path of a process that itself reported \<open>-1\<close>.
\<close>

theorem return_code_minus_one_origin:
  "(create_subprocess_shell rt command = Returns p
      \<and> communicate rt p = Returns (out, err, rc)
      \<and> bytes_decode out = Inr s \<and> bytes_decode err = Inr t
    \<longrightarrow> fst (try_body rt command) = Returns (success_result s t rc)
        \<and> fst (run_command rt command) = Returns (success_result s t rc)
        \<and> dict_get (success_result s t rc) ''return_code'' = Some (PyInt rc))
   \<and> (fst (run_command rt command) = Returns d
        \<and> dict_get d ''return_code'' = Some (PyInt (- 1))
    \<longrightarrow> (\<exists>e. fst (try_body rt command) = Raises e \<and> isinstance_Exception e
              \<and> d = error_result e)
        \<or> (\<exists>p' out' err'. create_subprocess_shell rt command = Returns p'
              \<and> communicate rt p' = Returns (out', err', - 1)
              \<and> fst (try_body rt command) = Returns d))"
proof (rule conjI; rule impI)
  assume a: "create_subprocess_shell rt command = Returns p
      \<and> communicate rt p = Returns (out, err, rc)
      \<and> bytes_decode out = Inr s \<and> bytes_decode err = Inr t"
  then have "fst (try_body rt command) = Returns (success_result s t rc)"
    using try_body_success [of rt command p out err rc s t] by simp
  then show "fst (try_body rt command) = Returns (success_result s t rc)
        \<and> fst (run_command rt command) = Returns (success_result s t rc)
        \<and> dict_get (success_result s t rc) ''return_code'' = Some (PyInt rc)"
    by (simp add: run_command_of_Returns dict_get_def success_result_def)
next
  assume a: "fst (run_command rt command) = Returns d
        \<and> dict_get d ''return_code'' = Some (PyInt (- 1))"
  show "(\<exists>e. fst (try_body rt command) = Raises e \<and> isinstance_Exception e
              \<and> d = error_result e)
        \<or> (\<exists>p' out' err'. create_subprocess_shell rt command = Returns p'
              \<and> communicate rt p' = Returns (out', err', - 1)
              \<and> fst (try_body rt command) = Returns d)"
  proof (cases "fst (try_body rt command)")
    case (Returns d')
    with a have dd: "d' = d"
      by (simp add: run_command_of_Returns)
    from try_body_Returns_D [OF Returns] obtain p' out' err' rc' s' t'
      where *: "create_subprocess_shell rt command = Returns p'"
        "communicate rt p' = Returns (out', err', rc')" "d' = success_result s' t' rc'"
      by blast
    from a dd *(3) have "dict_get (success_result s' t' rc') ''return_code'' = Some (PyInt (- 1))"
      by simp
    then have "rc' = - 1"
      by (simp add: dict_get_def success_result_def)
    with * Returns dd show ?thesis
      by blast
  next
    case (Raises e)
    with a show ?thesis
      by (auto simp add: run_command_of_Raises split: if_splits)
  next
    case Never_resumes
    with a show ?thesis
      by (simp add: run_command_of_Never)
  qed
qed

text \<open>
  A silent command that exits with 0 gives 0; the \<open>-1\<close> of a run without a shell comes
  from the error path.
\<close>

theorem return_code_minus_one_origin_witness:
  "create_subprocess_shell rt_silent (py_str ''true'') = Returns (Process 5)
   \<and> communicate rt_silent (Process 5) = Returns ([], [], 0)
   \<and> bytes_decode [] = Inr []
   \<and> fst (run_command rt_silent (py_str ''true'')) = Returns (success_result [] [] 0)
   \<and> dict_get (success_result [] [] 0) ''return_code'' = Some (PyInt 0)
   \<and> fst (run_command rt_no_shell (py_str ''true''))
       = Returns (error_result (Exc FileNotFoundError (py_str ''[Errno 2] No such file or directory'')))
   \<and> dict_get (error_result (Exc FileNotFoundError (py_str ''[Errno 2] No such file or directory'')))
        ''return_code'' = Some (PyInt (- 1))
   \<and> fst (try_body rt_no_shell (py_str ''true''))
       = Raises (Exc FileNotFoundError (py_str ''[Errno 2] No such file or directory''))"
proof -
  have r: "fst (run_command rt_no_shell (py_str ''true''))
       = Returns (error_result (Exc FileNotFoundError (py_str ''[Errno 2] No such file or directory'')))"
    by (simp add: rt_no_shell_def run_command_def try_body_def isinstance_Exception_def)
  have g: "dict_get (error_result (Exc FileNotFoundError (py_str ''[Errno 2] No such file or directory'')))
        ''return_code'' = Some (PyInt (- 1))"
    by (simp add: dict_get_def error_result_def)
  have t: "fst (try_body rt_no_shell (py_str ''true''))
       = Raises (Exc FileNotFoundError (py_str ''[Errno 2] No such file or directory''))"
    by (simp add: rt_no_shell_def try_body_def)
  show ?thesis
    using return_code_minus_one_origin [of rt_silent "py_str ''true''" "Process 5" "[]" "[]" 0
        "[]" "[]"]
      return_code_minus_one_origin [of rt_no_shell "py_str ''true''" _ _ _ _ _ _
        "error_result (Exc FileNotFoundError (py_str ''[Errno 2] No such file or directory''))"]
      r g t
    by (simp add: rt_silent_def bytes_decode_empty)
qed

subsection \<open>C4: an empty stream is not decoded\<close>




subsection \<open>C5: the encoding used to decode\<close>






subsection \<open>C6: one result per call, with all three fields\<close>

text \<open>
  C6 as stated fails: a call does not always return a result. A \<^verbatim>\<open>KeyboardInterrupt\<close>
  raised while the process is created leaves \<^verbatim>\<open>run_command\<close> as a raised exception,
  and with a child that never exits the call never produces a result (the source sets no
  timeout).
\<close>

theorem result_not_always_returned:
  "create_subprocess_shell rt_interrupted (py_str ''make'') = Raises (Exc KeyboardInterrupt [])
   \<and> fst (run_command rt_interrupted (py_str ''make'')) = Raises (Exc KeyboardInterrupt [])
   \<and> communicate rt_hung (Process 7) = Never_resumes
   \<and> fst (run_command rt_hung (py_str ''make'')) = Never_resumes"
  by (simp add: rt_interrupted_def rt_hung_def run_command_def try_body_def
      isinstance_Exception_def)

text \<open>
  C6, amended: for every command string a call produces at most one result, and a result
  that is produced is returned, never raised; a call does not always produce one: it can
  end with a raised fault, which is then outside class \<^verbatim>\<open>Exception\<close>, or never
  complete. In every returned result, of the success path or of the failure path, the
  fields \<^verbatim>\<open>stdout\<close> and \<^verbatim>\<open>stderr\<close> are present text values and \<^verbatim>\<open>return_code\<close> is a
  present integer value: the result is the dictionary with exactly these three keys. Both
  paths do return such a result: the success path when the child is spawned and awaited
  and both streams decode, the failure path when a fault of class \<^verbatim>\<open>Exception\<close> is
  raised at the spawn, at \<^verbatim>\<open>communicate()\<close> or by a decoding.
\<close>

theorem run_command_outcome_shape:
  "(\<forall>d. fst (run_command rt command) = Returns d \<longrightarrow>
       (\<exists>s t n. d = [(''stdout'', PyStr s), (''stderr'', PyStr t), (''return_code'', PyInt n)]))
   \<and> (\<forall>e. fst (run_command rt command) = Raises e \<longrightarrow> \<not> isinstance_Exception e)
   \<and> (create_subprocess_shell rt command = Returns p
        \<and> communicate rt p = Returns (out, err, rc)
        \<and> bytes_decode out = Inr s' \<and> bytes_decode err = Inr t'
      \<longrightarrow> fst (run_command rt command) =
            Returns [(''stdout'', PyStr s'), (''stderr'', PyStr t'), (''return_code'', PyInt rc)])
   \<and> (isinstance_Exception x
        \<and> (create_subprocess_shell rt command = Raises x
           \<or> (\<exists>q. create_subprocess_shell rt command = Returns q
                \<and> (communicate rt q = Raises x
                   \<or> (\<exists>o1 o2 n. communicate rt q = Returns (o1, o2, n)
                        \<and> (bytes_decode o1 = Inl x
                            \<or> (\<exists>u. bytes_decode o1 = Inr u) \<and> bytes_decode o2 = Inl x)))))
      \<longrightarrow> fst (run_command rt command) =
            Returns [(''stdout'', PyStr []),
                     (''stderr'', PyStr (py_str ''Error executing command: '' @ description x)),
                     (''return_code'', PyInt (- 1))])"
proof -
  have shape: "\<exists>s t n. d = [(''stdout'', PyStr s), (''stderr'', PyStr t), (''return_code'', PyInt n)]"
    if "fst (run_command rt command) = Returns d" for d
  proof (cases "fst (try_body rt command)")
    case (Returns d')
    with that try_body_Returns_D [OF Returns] show ?thesis
      by (auto simp add: run_command_of_Returns success_result_def)
  next
    case (Raises e)
    with that show ?thesis
      by (auto simp add: run_command_of_Raises error_result_def split: if_splits)
  next
    case Never_resumes
    with that show ?thesis
      by (simp add: run_command_of_Never)
  qed
  have raised: "\<not> isinstance_Exception e"
    if "fst (run_command rt command) = Raises e" for e
    using run_command_Raises_D [OF that] by simp
  have success: "fst (run_command rt command) =
            Returns [(''stdout'', PyStr s'), (''stderr'', PyStr t'), (''return_code'', PyInt rc)]"
    if "create_subprocess_shell rt command = Returns p
        \<and> communicate rt p = Returns (out, err, rc)
        \<and> bytes_decode out = Inr s' \<and> bytes_decode err = Inr t'"
  proof -
    from that have "fst (try_body rt command) = Returns (success_result s' t' rc)"
      using try_body_success [of rt command p out err rc s' t'] by simp
    then show ?thesis
      by (simp add: run_command_of_Returns success_result_def)
  qed
  have failure: "fst (run_command rt command) =
            Returns [(''stdout'', PyStr []),
                     (''stderr'', PyStr (py_str ''Error executing command: '' @ description x)),
                     (''return_code'', PyInt (- 1))]"
    if a: "isinstance_Exception x
        \<and> (create_subprocess_shell rt command = Raises x
           \<or> (\<exists>q. create_subprocess_shell rt command = Returns q
                \<and> (communicate rt q = Raises x
                   \<or> (\<exists>o1 o2 n. communicate rt q = Returns (o1, o2, n)
                        \<and> (bytes_decode o1 = Inl x
                            \<or> (\<exists>u. bytes_decode o1 = Inr u) \<and> bytes_decode o2 = Inl x)))))"
  proof -
    from a have "fst (try_body rt command) = Raises x"
      by (auto simp add: try_body_spawn_raises try_body_communicate_raises
          try_body_stdout_fault try_body_stderr_fault)
    with a show ?thesis
      by (simp add: run_command_of_Raises error_result_def)
  qed
  from shape raised success failure show ?thesis
    by blast
qed

text \<open>
  The silent command returns on the success path, the run without a shell on the failure
  path, each with the three fields; the interrupted run raises a fault that is not an
  \<^verbatim>\<open>Exception\<close>.
\<close>

theorem run_command_outcome_shape_witness:
  "create_subprocess_shell rt_silent (py_str ''true'') = Returns (Process 5)
   \<and> communicate rt_silent (Process 5) = Returns ([], [], 0)
   \<and> bytes_decode [] = Inr []
   \<and> fst (run_command rt_silent (py_str ''true''))
       = Returns [(''stdout'', PyStr []), (''stderr'', PyStr []), (''return_code'', PyInt 0)]
   \<and> fst (run_command rt_interrupted (py_str ''true'')) = Raises (Exc KeyboardInterrupt [])
   \<and> \<not> isinstance_Exception (Exc KeyboardInterrupt [])
   \<and> create_subprocess_shell rt_no_shell (py_str ''true'')
       = Raises (Exc FileNotFoundError (py_str ''[Errno 2] No such file or directory''))
   \<and> isinstance_Exception (Exc FileNotFoundError (py_str ''[Errno 2] No such file or directory''))
   \<and> fst (run_command rt_no_shell (py_str ''true''))
       = Returns [(''stdout'', PyStr []),
                  (''stderr'', PyStr (py_str ''Error executing command: ''
                                       @ py_str ''[Errno 2] No such file or directory'')),
                  (''return_code'', PyInt (- 1))]"
proof -
  have b: "fst (run_command rt_interrupted (py_str ''true'')) = Raises (Exc KeyboardInterrupt [])"
    by (simp add: rt_interrupted_def run_command_def try_body_def isinstance_Exception_def)
  have d: "create_subprocess_shell rt_no_shell (py_str ''true'')
       = Raises (Exc FileNotFoundError (py_str ''[Errno 2] No such file or directory''))"
    by (simp add: rt_no_shell_def)
  have e: "isinstance_Exception (Exc FileNotFoundError (py_str ''[Errno 2] No such file or directory''))"
    by (simp add: isinstance_Exception_def)
  show ?thesis
    using run_command_outcome_shape [of rt_silent "py_str ''true''" "Process 5" "[]" "[]" 0
        "[]" "[]"]
      run_command_outcome_shape [of rt_interrupted "py_str ''true''"]
      run_command_outcome_shape [of rt_no_shell "py_str ''true''" _ _ _ _ _ _
        "Exc FileNotFoundError (py_str ''[Errno 2] No such file or directory'')"]
      b d e
    by (simp add: rt_silent_def bytes_decode_empty)
qed

subsection \<open>C7: the same child behaviour gives the same result\<close>

text \<open>
  C7: two invocations with the same command string that observe the same child-process
  behaviour (the same fault or suspension at the spawn, or a spawn and then the same
  outcome of \<^verbatim>\<open>communicate()\<close>: captured bytes and return code, or fault) yield the
  same outcome, hence results with identical \<^verbatim>\<open>stdout\<close>, \<^verbatim>\<open>stderr\<close>
  and \<^verbatim>\<open>return_code\<close>, although the process handles and everything else in the two
  environments may differ.
\<close>

theorem run_command_deterministic:
  assumes "(\<exists>p1 p2. create_subprocess_shell rt1 command = Returns p1
              \<and> create_subprocess_shell rt2 command = Returns p2
              \<and> communicate rt1 p1 = communicate rt2 p2)
         \<or> (\<exists>e. create_subprocess_shell rt1 command = Raises e
              \<and> create_subprocess_shell rt2 command = Raises e)
         \<or> (create_subprocess_shell rt1 command = Never_resumes
              \<and> create_subprocess_shell rt2 command = Never_resumes)"
  shows "fst (run_command rt1 command) = fst (run_command rt2 command)"
proof -
  have "fst (try_body rt1 command) = fst (try_body rt2 command)"
    using assms
    by (auto simp add: try_body_def split: awaited.splits prod.splits sum.splits)
  then show ?thesis
    by (cases "try_body rt1 command"; cases "try_body rt2 command")
      (simp add: run_command_def split: awaited.splits)
qed

text \<open>
  Two runs of \<^verbatim>\<open>echo hi\<close> in different environments.
\<close>

theorem run_command_deterministic_witness:
  "rt_first \<noteq> rt_second
   \<and> create_subprocess_shell rt_first (py_str ''echo hi'') = Returns (Process 100)
   \<and> create_subprocess_shell rt_second (py_str ''echo hi'') = Returns (Process 101)
   \<and> communicate rt_first (Process 100) = communicate rt_second (Process 101)
   \<and> fst (run_command rt_first (py_str ''echo hi''))
       = fst (run_command rt_second (py_str ''echo hi''))
   \<and> fst (run_command rt_first (py_str ''echo hi''))
       = Returns [(''stdout'', PyStr (py_str ''hi'' @ [10])), (''stderr'', PyStr []),
                  (''return_code'', PyInt 0)]"
proof -
  have ne: "rt_first \<noteq> rt_second"
    by (simp add: rt_first_def rt_second_def)
  have s1: "create_subprocess_shell rt_first (py_str ''echo hi'') = Returns (Process 100)"
    and s2: "create_subprocess_shell rt_second (py_str ''echo hi'') = Returns (Process 101)"
    and co: "communicate rt_first (Process 100) = communicate rt_second (Process 101)"
    and c1: "communicate rt_first (Process 100) = Returns ([0x68, 0x69, 0x0A], [], 0)"
    by (simp_all add: rt_first_def rt_second_def)
  have de: "bytes_decode [0x68, 0x69, 0x0A] = Inr (py_str ''hi'' @ [10])"
    by (simp add: py_str_def bytes_decode_def step_1byte)
  have r: "fst (run_command rt_first (py_str ''echo hi''))
       = Returns [(''stdout'', PyStr (py_str ''hi'' @ [10])), (''stderr'', PyStr []),
                  (''return_code'', PyInt 0)]"
    using try_body_success [OF s1 c1 de bytes_decode_empty]
    by (simp add: run_command_of_Returns success_result_def)
  show ?thesis
    using run_command_deterministic [of rt_first "py_str ''echo hi''" rt_second] ne s1 s2 co r
    by simp
qed

subsection \<open>C8: the return code is passed through\<close>

text \<open>
  C8: whenever the child is spawned and awaited and both captured streams decode,
  \<^verbatim>\<open>run_command\<close> returns the result of the success path, and the value that the
  process object reports as its \<^verbatim>\<open>returncode\<close> is the \<^verbatim>\<open>return_code\<close> of that result,
  for every integer: nothing restricts or clamps it, so that a negative value such as
  \<open>-1\<close> (a child ended by a signal on POSIX) arrives unchanged.
\<close>

theorem returncode_passed_through:
  assumes "create_subprocess_shell rt command = Returns p"
    and "communicate rt p = Returns (out, err, rc)"
    and "bytes_decode out = Inr s"
    and "bytes_decode err = Inr t"
  shows "fst (run_command rt command) =
           Returns [(''stdout'', PyStr s), (''stderr'', PyStr t), (''return_code'', PyInt rc)]
       \<and> dict_get [(''stdout'', PyStr s), (''stderr'', PyStr t), (''return_code'', PyInt rc)]
            ''return_code'' = Some (PyInt rc)"
proof -
  from try_body_success [OF assms]
  have "fst (try_body rt command) = Returns (success_result s t rc)"
    by simp
  then show ?thesis
    by (simp add: run_command_of_Returns dict_get_def success_result_def)
qed

text \<open>
  The child killed by signal 1: the result carries \<open>-1\<close>.
\<close>

theorem returncode_passed_through_witness:
  "create_subprocess_shell rt_sighup (py_str ''sleep 60'') = Returns (Process 99)
   \<and> communicate rt_sighup (Process 99) = Returns ([], [], - 1)
   \<and> bytes_decode [] = Inr []
   \<and> fst (run_command rt_sighup (py_str ''sleep 60''))
       = Returns [(''stdout'', PyStr []), (''stderr'', PyStr []), (''return_code'', PyInt (- 1))]
   \<and> dict_get [(''stdout'', PyStr []), (''stderr'', PyStr []), (''return_code'', PyInt (- 1))]
        ''return_code'' = Some (PyInt (- 1))"
proof -
  have sp: "create_subprocess_shell rt_sighup (py_str ''sleep 60'') = Returns (Process 99)"
    and co: "communicate rt_sighup (Process 99) = Returns ([], [], - 1)"
    by (simp_all add: rt_sighup_def)
  show ?thesis
    using returncode_passed_through [OF sp co bytes_decode_empty bytes_decode_empty] sp co
    by (simp add: bytes_decode_empty)
qed

subsection \<open>C9: faults outside \<^verbatim>\<open>Exception\<close> propagate\<close>

text \<open>
  C9: the handler catches the faults of class \<^verbatim>\<open>Exception\<close> only. A fault raised at
  one of the awaits is turned into the error result when it is an instance of
  \<^verbatim>\<open>Exception\<close>, and otherwise leaves \<^verbatim>\<open>run_command\<close> as it is; task cancellation,
  keyboard interrupt, \<^verbatim>\<open>SystemExit\<close> and \<^verbatim>\<open>GeneratorExit\<close> are such faults.
\<close>

theorem non_Exception_fault_propagates:
  assumes "create_subprocess_shell rt command = Raises e
         \<or> (\<exists>p. create_subprocess_shell rt command = Returns p \<and> communicate rt p = Raises e)"
  shows "fst (run_command rt command)
           = (if isinstance_Exception e then Returns (error_result e) else Raises e)
       \<and> \<not> isinstance_Exception (Exc CancelledError m)
       \<and> \<not> isinstance_Exception (Exc KeyboardInterrupt m)
       \<and> \<not> isinstance_Exception (Exc SystemExit m)
       \<and> \<not> isinstance_Exception (Exc GeneratorExit m)"
proof -
  from assms have "fst (try_body rt command) = Raises e"
    by (auto simp add: try_body_spawn_raises try_body_communicate_raises)
  then show ?thesis
    by (simp add: run_command_of_Raises isinstance_Exception_def)
qed

text \<open>
  The task cancelled while it awaits the child.
\<close>

theorem non_Exception_fault_propagates_witness:
  "create_subprocess_shell rt_cancelled (py_str ''sleep 60'') = Returns (Process 4242)
   \<and> communicate rt_cancelled (Process 4242) = Raises (Exc CancelledError [])
   \<and> \<not> isinstance_Exception (Exc CancelledError [])
   \<and> fst (run_command rt_cancelled (py_str ''sleep 60'')) = Raises (Exc CancelledError [])"
proof -
  have sp: "create_subprocess_shell rt_cancelled (py_str ''sleep 60'') = Returns (Process 4242)"
    and co: "communicate rt_cancelled (Process 4242) = Raises (Exc CancelledError [])"
    by (simp_all add: rt_cancelled_def)
  show ?thesis
    using non_Exception_fault_propagates [of rt_cancelled "py_str ''sleep 60''"
        "Exc CancelledError []" "[]"] sp co
    by simp
qed

end
